theory Spec2Isabelle
  imports Complex_Main "HOL-Library.Char_ord" "HOL-Library.List_Lexorder"
begin

section \<open>Cells, rows and tables\<close>

text \<open>
  The program (\<^verbatim>\<open>src/app.py\<close>) reads one spreadsheet into a pandas DataFrame and
  computes every figure of the dashboard from it. A DataFrame is modelled as the list
  of its rows, in file order.

  A float is an IEEE double: a real number, a signed infinity, or NaN (which is also
  what pandas stores for a blank numeric cell). The result of every addition,
  multiplication and division is rounded to the nearest double, ties to even (\<open>rnd\<close>
  below). Overflow to infinity, subnormal numbers and the sign of zero are not
  modelled: the exponent is unbounded. A numeric cell of the spreadsheet holds a
  double, so the reals that are not doubles are not values of cells.
\<close>

datatype fl = NaN | Num real | Infty bool

text \<open>
  Rounding to 53 significant bits. \<open>bit_length n\<close> is the number of binary digits of
  \<open>n\<close>; \<open>exponent a\<close>, for \<open>a > 0\<close>, is the \<open>e\<close> with \<open>2^e \<le> a < 2^(e+1)\<close>;
  \<open>rnd x\<close> scales \<open>\<bar>x\<bar>\<close> into \<open>[2^52, 2^53)\<close>, rounds it to the nearest integer, an exact
  half to the even neighbour, and scales back.
\<close>

fun bit_length :: "nat \<Rightarrow> nat" where
  "bit_length n = (if n = 0 then 0 else Suc (bit_length (n div 2)))"

definition pow2 :: "int \<Rightarrow> real" where
  "pow2 e = (if 0 \<le> e then 2 ^ nat e else 1 / 2 ^ nat (- e))"

definition exponent :: "real \<Rightarrow> int" where
  "exponent a =
     (if 1 \<le> a then int (bit_length (nat \<lfloor>a\<rfloor>)) - 1
      else (let k = int (bit_length (nat \<lfloor>1 / a\<rfloor>))
            in if a = pow2 (1 - k) then 1 - k else - k))"

definition round_half_even :: "real \<Rightarrow> int" where
  "round_half_even m =
     (let f = \<lfloor>m\<rfloor>; d = m - of_int f
      in if d < 1 / 2 then f else if 1 / 2 < d then f + 1
         else if even f then f else f + 1)"

definition rnd :: "real \<Rightarrow> real" where
  "rnd x =
     (if x = 0 then 0
      else (let a = \<bar>x\<bar>; e = exponent a;
               q = round_half_even (a * pow2 (52 - e))
            in sgn x * of_int q * pow2 (e - 52)))"

text \<open>\<open>Infty True\<close> is \<open>+inf\<close>, \<open>Infty False\<close> is \<open>-inf\<close>.
  Comparisons with NaN are false, as in IEEE 754 and numpy.\<close>

fun fl_le :: "fl \<Rightarrow> fl \<Rightarrow> bool" where
  "fl_le (Num x) (Num y) = (x \<le> y)"
| "fl_le (Num x) (Infty t) = t"
| "fl_le (Infty s) (Num y) = (\<not> s)"
| "fl_le (Infty s) (Infty t) = (if s then t else True)"
| "fl_le NaN b = False"
| "fl_le a NaN = False"

fun fl_lt :: "fl \<Rightarrow> fl \<Rightarrow> bool" where
  "fl_lt (Num x) (Num y) = (x < y)"
| "fl_lt (Num x) (Infty t) = t"
| "fl_lt (Infty s) (Num y) = (\<not> s)"
| "fl_lt (Infty s) (Infty t) = (if s then False else t)"
| "fl_lt NaN b = False"
| "fl_lt a NaN = False"

definition fl_ge :: "fl \<Rightarrow> fl \<Rightarrow> bool" where
  "fl_ge a b = fl_le b a"

fun isna :: "fl \<Rightarrow> bool" where
  "isna NaN = True"
| "isna a = False"






text \<open>A numeric cell of the spreadsheet holds a number or is blank; the reader turns
  a blank cell into NaN.\<close>

fun of_cell :: "real option \<Rightarrow> fl" where
  "of_cell None = NaN"
| "of_cell (Some x) = Num x"

text \<open>
  The stock-code column (gu piao dai ma) comes out of the spreadsheet reader as
  integers or as text, depending on the cells; the company-name column (qi ye ming
  cheng) may have blank cells. The year column (nian fen) is an integer in every row
  (the year slider is built from \<^verbatim>\<open>int(available_years[0])\<close>), and the index
  column (shu zi hua zhuan xing zhi shu) is a numeric column that may have blank
  cells.
\<close>

datatype code_cell = CodeInt int | CodeStr string

record raw_row =
  raw_code :: code_cell
  raw_name :: "string option"
  raw_year :: int
  raw_index :: "real option"

text \<open>A row of \<^verbatim>\<open>df\<close> after the preprocessing of lines 39-40: the code is text and
  the name is never missing.\<close>

record row =
  stock_code :: string
  company_name :: string
  year :: int
  dt_index :: "real option"

section \<open>Loading (lines 20-33)\<close>

text \<open>The three candidate paths, as UTF-8 bytes.\<close>

definition report_file :: string where
  "report_file =
     [CHR 0xE4, CHR 0xB8, CHR 0xA4] @ [CHR 0xE7, CHR 0x89, CHR 0x88] @
     [CHR 0xE5, CHR 0x90, CHR 0x88] @ [CHR 0xE5, CHR 0xB9, CHR 0xB6] @
     [CHR 0xE5, CHR 0x90, CHR 0x8E] @ [CHR 0xE7, CHR 0x9A, CHR 0x84] @
     [CHR 0xE5, CHR 0xB9, CHR 0xB4] @ [CHR 0xE6, CHR 0x8A, CHR 0xA5] @
     [CHR 0xE6, CHR 0x95, CHR 0xB0] @ [CHR 0xE6, CHR 0x8D, CHR 0xAE] @ ''_'' @
     [CHR 0xE5, CHR 0xAE, CHR 0x8C] @ [CHR 0xE6, CHR 0x95, CHR 0xB4] @
     [CHR 0xE7, CHR 0x89, CHR 0x88] @ ''.xlsx''"

definition data_files :: "string list" where
  "data_files = [''data.xlsx'', report_file, ''data/'' @ report_file]"

text \<open>The message passed to \<^verbatim>\<open>st.error\<close> when no file is found.\<close>

definition not_found_message :: string where
  "not_found_message =
     [CHR 0xE2, CHR 0x9D, CHR 0x8C] @ '' '' @ [CHR 0xE6, CHR 0x9C, CHR 0xAA] @
     [CHR 0xE6, CHR 0x89, CHR 0xBE] @ [CHR 0xE5, CHR 0x88, CHR 0xB0] @
     [CHR 0xE6, CHR 0x95, CHR 0xB0] @ [CHR 0xE6, CHR 0x8D, CHR 0xAE] @
     [CHR 0xE6, CHR 0x96, CHR 0x87] @ [CHR 0xE4, CHR 0xBB, CHR 0xB6]"

text \<open>
  The file system is the predicate \<open>exists\<close> (\<^verbatim>\<open>os.path.exists\<close>) and the reader
  \<open>read_excel\<close>, whose result type \<open>'t\<close> is left open: it is whatever
  \<^verbatim>\<open>pd.read_excel\<close> yields for that path, a table or a raised exception. The loop
  returns at the first path that exists. The result is the returned value
  (\<open>None\<close> is Python's \<^verbatim>\<open>None\<close>) and the list of messages shown with
  \<^verbatim>\<open>st.error\<close>. The decorator \<^verbatim>\<open>st.cache_data\<close> only memoises the call, which
  has no argument; the model is the call itself.
\<close>

fun load_loop :: "(string \<Rightarrow> bool) \<Rightarrow> (string \<Rightarrow> 't) \<Rightarrow> string list \<Rightarrow> 't option \<times> string list" where
  "load_loop exists read_excel [] = (None, [not_found_message])"
| "load_loop exists read_excel (path # paths) =
     (if exists path then (Some (read_excel path), [])
      else load_loop exists read_excel paths)"

definition load_data :: "(string \<Rightarrow> bool) \<Rightarrow> (string \<Rightarrow> 't) \<Rightarrow> 't option \<times> string list" where
  "load_data exists read_excel = load_loop exists read_excel data_files"

section \<open>Preprocessing (lines 39-44)\<close>

text \<open>Python's \<^verbatim>\<open>str\<close> on an integer: decimal digits, with a minus sign if negative.\<close>

fun str_nat :: "nat \<Rightarrow> string" where
  "str_nat n =
     (if n < 10 then [''0123456789'' ! n]
      else str_nat (n div 10) @ [''0123456789'' ! (n mod 10)])"

definition str_int :: "int \<Rightarrow> string" where
  "str_int i = (if i < 0 then ''-'' @ str_nat (nat (- i)) else str_nat (nat i))"

text \<open>\<^verbatim>\<open>astype(str)\<close> applies \<^verbatim>\<open>str\<close> to each cell of the code column.\<close>

fun astype_str :: "code_cell \<Rightarrow> string" where
  "astype_str (CodeInt i) = str_int i"
| "astype_str (CodeStr s) = s"

text \<open>The sentinel name (wei zhi qi ye, "unknown company"), as UTF-8 bytes.\<close>

definition unknown_company :: string where
  "unknown_company =
     [CHR 0xE6, CHR 0x9C, CHR 0xAA] @ [CHR 0xE7, CHR 0x9F, CHR 0xA5] @
     [CHR 0xE4, CHR 0xBC, CHR 0x81] @ [CHR 0xE4, CHR 0xB8, CHR 0x9A]"

fun fillna :: "string option \<Rightarrow> string" where
  "fillna None = unknown_company"
| "fillna (Some s) = s"

definition preprocess_row :: "raw_row \<Rightarrow> row" where
  "preprocess_row r =
     \<lparr>stock_code = astype_str (raw_code r), company_name = fillna (raw_name r),
      year = raw_year r, dt_index = raw_index r\<rparr>"

definition preprocess :: "raw_row list \<Rightarrow> row list" where
  "preprocess t = map preprocess_row t"

text \<open>A preprocessed table seen again as an input table: the same cells, the code
  as a text cell and the name as a present cell.\<close>

definition as_raw :: "row \<Rightarrow> raw_row" where
  "as_raw r =
     \<lparr>raw_code = CodeStr (stock_code r), raw_name = Some (company_name r),
      raw_year = year r, raw_index = dt_index r\<rparr>"

definition available_stocks :: "row list \<Rightarrow> string list" where
  "available_stocks df = sort (remdups (map stock_code df))"

definition available_years :: "row list \<Rightarrow> int list" where
  "available_years df = sort (remdups (map year df))"

text \<open>
  \<^verbatim>\<open>df.groupby(code)[name].first().to_dict()\<close>: per code, the first entry of the
  name column that is not null. The name column of \<open>df\<close> has no null entry (it went
  through \<open>fillna\<close>), so this is the name in the first row of the code.
\<close>

definition stock_name_map :: "row list \<Rightarrow> string \<rightharpoonup> string" where
  "stock_name_map df k = map_option company_name (find (\<lambda>r. stock_code r = k) df)"

section \<open>Query selection and the current-selection metrics (lines 53-79)\<close>

text \<open>\<^verbatim>\<open>stock_name_map.get(stock_search, sentinel)\<close>.\<close>

definition display_name :: "row list \<Rightarrow> string \<Rightarrow> string" where
  "display_name df stock_search =
     (case stock_name_map df stock_search of None \<Rightarrow> unknown_company | Some n \<Rightarrow> n)"

text \<open>\<^verbatim>\<open>sort_values\<close> is modelled as a stable sort; the order of rows of equal year
  is not used below.\<close>

definition company_all_data :: "row list \<Rightarrow> string \<Rightarrow> row list" where
  "company_all_data df stock_search =
     sort_key year (filter (\<lambda>r. stock_code r = stock_search) df)"

definition filtered_data :: "row list \<Rightarrow> string \<Rightarrow> int \<Rightarrow> row list" where
  "filtered_data df stock_search selected_year =
     filter (\<lambda>r. stock_code r = stock_search \<and> year r = selected_year) df"

definition current_year_data :: "row list \<Rightarrow> int \<Rightarrow> row list" where
  "current_year_data df selected_year = filter (\<lambda>r. year r = selected_year) df"

text \<open>
  The block under \<^verbatim>\<open>if not filtered_data.empty\<close>: the four metrics of the current
  selection, taken from the first row of \<open>filtered_data\<close> (\<^verbatim>\<open>.iloc[0]\<close>), with the
  rank and the size of the year. \<open>None\<close> when the block is skipped. The values are
  kept unformatted.
\<close>

record metrics =
  m_name :: string
  m_year :: int
  m_index :: fl
  m_rank :: nat
  m_total :: nat

definition current_rank :: "row list \<Rightarrow> int \<Rightarrow> fl \<Rightarrow> nat" where
  "current_rank df selected_year v =
     length (filter (\<lambda>r. fl_ge (of_cell (dt_index r)) v) (current_year_data df selected_year))"

definition current_metrics :: "row list \<Rightarrow> string \<Rightarrow> int \<Rightarrow> metrics option" where
  "current_metrics df stock_search selected_year =
     (case filtered_data df stock_search selected_year of
        [] \<Rightarrow> None
      | r0 # _ \<Rightarrow>
          Some \<lparr>m_name = company_name r0, m_year = selected_year,
                m_index = of_cell (dt_index r0),
                m_rank = current_rank df selected_year (of_cell (dt_index r0)),
                m_total = length (current_year_data df selected_year)\<rparr>)"

section \<open>Bucketed distribution (lines 101-104)\<close>

definition bins :: "real list" where
  "bins = [0, 20, 40, 60, 80, 100]"

definition labels :: "string list" where
  "labels = [''0-20'', ''20-40'', ''40-60'', ''60-80'', ''80-100'']"

text \<open>
  \<^verbatim>\<open>pd.cut(x, bins=bins, labels=labels)\<close> with its defaults \<^verbatim>\<open>right=True\<close> and
  \<^verbatim>\<open>include_lowest=False\<close>: the position of a value is found with
  \<^verbatim>\<open>bins.searchsorted(x, side='left')\<close>, the number of edges strictly below it;
  positions \<open>0\<close> and \<open>len(bins)\<close> and null values get no category; position \<open>i\<close>
  gets category \<open>i - 1\<close>.
\<close>

definition searchsorted_left :: "real list \<Rightarrow> fl \<Rightarrow> nat" where
  "searchsorted_left bs v = length (filter (\<lambda>b. fl_lt (Num b) v) bs)"

definition cut :: "fl \<Rightarrow> nat option" where
  "cut v =
     (let i = searchsorted_left bins v
      in if isna v \<or> i = 0 \<or> i = length bins then None else Some (i - 1))"

text \<open>\<^verbatim>\<open>value_counts().sort_index()\<close> of a categorical column: one count per
  category, in category order; rows without a category are not counted.\<close>

definition distribution :: "row list \<Rightarrow> (string \<times> nat) list" where
  "distribution df =
     map (\<lambda>i. (labels ! i, length (filter (\<lambda>r. cut (of_cell (dt_index r)) = Some i) df)))
       [0 ..< length labels]"

section \<open>Grouped means (lines 111, 126, 133, 161, 173)\<close>

text \<open>
  The mean of a group skips blank cells; a group without any number has mean NaN.
  The grouped mean of pandas adds the numbers of a group, in row order, with
  compensated (Kahan) summation, every step rounded:
  \<^verbatim>\<open>y = val - compensation; t = sumx + y; compensation = t - sumx - y; sumx = t\<close>,
  and divides the sum by the count.
\<close>

fun kahan_sum :: "real \<Rightarrow> real \<Rightarrow> real list \<Rightarrow> real" where
  "kahan_sum sumx compensation [] = sumx"
| "kahan_sum sumx compensation (val # vals) =
     (let y = rnd (val - compensation); t = rnd (sumx + y)
      in kahan_sum t (rnd (rnd (t - sumx) - y)) vals)"

definition group_mean :: "real option list \<Rightarrow> fl" where
  "group_mean vs =
     (let xs = List.map_filter id vs
      in if xs = [] then NaN else Num (rnd (kahan_sum 0 0 xs / real (length xs))))"

text \<open>\<^verbatim>\<open>df.groupby(key)[index].mean()\<close>: one entry per distinct key, keys in
  ascending order (\<^verbatim>\<open>sort=True\<close> is the default of \<^verbatim>\<open>groupby\<close>).\<close>

definition groupby_mean :: "(row \<Rightarrow> 'k::linorder) \<Rightarrow> row list \<Rightarrow> ('k \<times> fl) list" where
  "groupby_mean key df =
     map (\<lambda>k. (k, group_mean (map dt_index (filter (\<lambda>r. key r = k) df))))
       (sort (remdups (map key df)))"

definition yearly_mean :: "row list \<Rightarrow> (int \<times> fl) list" where
  "yearly_mean df = groupby_mean year df"

section \<open>Year-over-year change (lines 173-174)\<close>


fun ffill_from :: "fl \<Rightarrow> fl list \<Rightarrow> fl list" where
  "ffill_from prev [] = []"
| "ffill_from prev (x # xs) =
     (if isna x then prev # ffill_from prev xs else x # ffill_from x xs)"

definition ffill :: "fl list \<Rightarrow> fl list" where
  "ffill xs = ffill_from NaN xs"


section \<open>Top-N lists (lines 126, 133)\<close>

text \<open>
  \<^verbatim>\<open>Series.nlargest(n)\<close> with \<^verbatim>\<open>keep='first'\<close>: the entries that are not null in
  descending order of value, entries of equal value in their order in the series (a
  stable sort), then the null entries in their order in the series; the first \<open>n\<close> of
  that.
\<close>

fun insort_desc :: "'k \<times> fl \<Rightarrow> ('k \<times> fl) list \<Rightarrow> ('k \<times> fl) list" where
  "insort_desc x [] = [x]"
| "insort_desc x (y # ys) =
     (if fl_lt (snd x) (snd y) then y # insort_desc x ys else x # y # ys)"

fun sort_desc :: "('k \<times> fl) list \<Rightarrow> ('k \<times> fl) list" where
  "sort_desc [] = []"
| "sort_desc (x # xs) = insort_desc x (sort_desc xs)"

definition nlargest :: "nat \<Rightarrow> ('k \<times> fl) list \<Rightarrow> ('k \<times> fl) list" where
  "nlargest n s =
     take n (sort_desc (filter (\<lambda>e. \<not> isna (snd e)) s) @ filter (\<lambda>e. isna (snd e)) s)"


definition ranking :: "('k \<times> fl) list \<Rightarrow> ('k \<times> fl) list" where
  "ranking s = sort_desc (filter (\<lambda>e. \<not> isna (snd e)) s) @ filter (\<lambda>e. isna (snd e)) s"

definition mean_by_code :: "row list \<Rightarrow> (string \<times> fl) list" where
  "mean_by_code df = groupby_mean stock_code df"

definition top_stocks :: "row list \<Rightarrow> string list" where
  "top_stocks df = map fst (nlargest 30 (mean_by_code df))"


section \<open>Pivot table and heatmap (lines 123-127)\<close>

text \<open>
  \<^verbatim>\<open>df.pivot_table(values=index, index=code, columns=year, aggfunc='mean')\<close> groups
  by (code, year), takes the mean of each group, drops the groups whose mean is null
  (\<^verbatim>\<open>dropna=True\<close> is the default), and unstacks the year: the row labels are the
  codes of the groups left, the column labels their years, both ascending, and a cell
  without a group is NaN.
\<close>

record pivot =
  p_index :: "string list"
  p_columns :: "int list"
  p_values :: "string \<Rightarrow> int \<Rightarrow> fl"

definition cell_mean :: "row list \<Rightarrow> string \<Rightarrow> int \<Rightarrow> fl" where
  "cell_mean df k y =
     group_mean (map dt_index (filter (\<lambda>r. stock_code r = k \<and> year r = y) df))"

definition kept_groups :: "row list \<Rightarrow> (string \<times> int) list" where
  "kept_groups df =
     filter (\<lambda>(k, y). \<not> isna (cell_mean df k y)) (remdups (map (\<lambda>r. (stock_code r, year r)) df))"

definition pivot_table :: "row list \<Rightarrow> pivot" where
  "pivot_table df =
     \<lparr>p_index = sort (remdups (map fst (kept_groups df))),
      p_columns = sort (remdups (map snd (kept_groups df))),
      p_values = cell_mean df\<rparr>"

text \<open>\<^verbatim>\<open>DataFrame.empty\<close>: some axis has length 0.\<close>

definition empty_pivot :: "pivot \<Rightarrow> bool" where
  "empty_pivot p = (p_index p = [] \<or> p_columns p = [])"

text \<open>\<^verbatim>\<open>.loc[labels]\<close> with a list of labels raises \<^verbatim>\<open>KeyError\<close> naming the labels
  that are not in the index, and otherwise selects the rows in the order asked.\<close>

datatype error = KeyError "string list"

definition loc :: "pivot \<Rightarrow> string list \<Rightarrow> error + pivot" where
  "loc p ks =
     (let missing = filter (\<lambda>k. k \<notin> set (p_index p)) ks
      in if missing = [] then Inr (p\<lparr>p_index := ks\<rparr>) else Inl (KeyError missing))"

text \<open>The body of the heatmap tab: \<open>Inr None\<close> when the pivot table is empty and
  nothing is drawn, \<open>Inr (Some pivot_subset)\<close> when the rows are selected, \<open>Inl\<close> when
  the selection raises.\<close>

definition heatmap :: "row list \<Rightarrow> error + pivot option" where
  "heatmap df =
     (let pivot_data = pivot_table df
      in if empty_pivot pivot_data then Inr None
         else (case loc pivot_data (top_stocks df) of
                 Inl e \<Rightarrow> Inl e
               | Inr pivot_subset \<Rightarrow> Inr (Some pivot_subset)))"

section \<open>The loader\<close>

lemma load_loop_found:
  "\<lbrakk>\<forall>q\<in>set before. \<not> ex q; ex p\<rbrakk>
     \<Longrightarrow> load_loop ex rd (before @ p # after) = (Some (rd p), [])"
  by (induction before) simp_all

lemma load_loop_none:
  "\<forall>q\<in>set ps. \<not> ex q \<Longrightarrow> load_loop ex rd ps = (None, [not_found_message])"
  by (induction ps) simp_all

text \<open>
  Claim C5. The loader returns what the reader gives for the first candidate path that
  exists: if \<open>p\<close> is a candidate, no candidate before it exists and \<open>p\<close> exists, the
  result is \<open>read_excel p\<close> and no message, whatever holds of the candidates after \<open>p\<close>
  (they are not consulted). If no candidate exists, the loader returns \<open>None\<close> and shows
  the one error message; it does nothing else.
\<close>

theorem C5_load_data:
  "(data_files = before @ p # after \<and> (\<forall>q\<in>set before. \<not> ex q) \<and> ex p
      \<longrightarrow> load_data ex rd = (Some (rd p), []))
   \<and> ((\<forall>q\<in>set data_files. \<not> ex q) \<longrightarrow> load_data ex rd = (None, [not_found_message]))"
proof (intro conjI impI)
  assume "data_files = before @ p # after \<and> (\<forall>q\<in>set before. \<not> ex q) \<and> ex p"
  then have split: "data_files = before @ p # after"
    and absent: "\<forall>q\<in>set before. \<not> ex q" and found: "ex p" by simp_all
  have "load_loop ex rd (before @ p # after) = (Some (rd p), [])"
    using absent found by (rule load_loop_found)
  then show "load_data ex rd = (Some (rd p), [])"
    unfolding load_data_def split .
next
  assume "\<forall>q\<in>set data_files. \<not> ex q"
  then show "load_data ex rd = (None, [not_found_message])"
    unfolding load_data_def by (rule load_loop_none)
qed

text \<open>
  Two file systems: in the first the second and third candidates exist and the second
  is read (the reader here returns the length of the path); in the second nothing
  exists.
\<close>

theorem C5_load_data_witness:
  "load_data (\<lambda>q. q = report_file \<or> q = ''data/'' @ report_file) length
     = (Some (length report_file), [])
   \<and> load_data (\<lambda>q. False) length = (None, [not_found_message])"
proof -
  let ?ex = "\<lambda>q. q = report_file \<or> q = ''data/'' @ report_file"
  have split: "data_files = [''data.xlsx''] @ report_file # [''data/'' @ report_file]"
    by (simp add: data_files_def)
  have absent: "\<forall>q\<in>set [''data.xlsx'']. \<not> ?ex q"
    by (simp add: report_file_def)
  have a: "load_data ?ex length = (Some (length report_file), [])"
    using C5_load_data [of "[''data.xlsx'']" report_file "[''data/'' @ report_file]" ?ex length]
      split absent by blast
  have b: "load_data (\<lambda>q. False) length = (None, [not_found_message])"
    using C5_load_data [of "[]" "''x''" "[]" "\<lambda>q. False" length] by blast
  from a b show ?thesis by simp
qed

section \<open>Preprocessing and the name registry\<close>

lemma preprocess_row_as_raw: "preprocess_row (as_raw r) = r"
  by (simp add: preprocess_row_def as_raw_def)

lemma preprocess_as_raw: "preprocess (map as_raw df) = df"
  by (simp add: preprocess_def preprocess_row_as_raw map_idI)

text \<open>
  Claim C9. Preprocessing is idempotent: a preprocessed table, given to the
  preprocessing again, comes out unchanged, and so do the sorted list of codes, the
  sorted list of years and the code-to-name map derived from it.
\<close>

theorem C9_preprocess_idempotent:
  "preprocess (map as_raw (preprocess t)) = preprocess t
   \<and> available_stocks (preprocess (map as_raw (preprocess t))) = available_stocks (preprocess t)
   \<and> available_years (preprocess (map as_raw (preprocess t))) = available_years (preprocess t)
   \<and> stock_name_map (preprocess (map as_raw (preprocess t))) = stock_name_map (preprocess t)"
  by (simp add: preprocess_as_raw)

text \<open>An instance: a table with an integer code and a blank name.\<close>

theorem C9_preprocess_idempotent_witness:
  "preprocess (map as_raw (preprocess
      [\<lparr>raw_code = CodeInt 600003, raw_name = None, raw_year = 1999, raw_index = Some 60\<rparr>]))
   = [\<lparr>stock_code = ''600003'', company_name = unknown_company, year = 1999,
       dt_index = Some 60\<rparr>]"
  using C9_preprocess_idempotent
    [of "[\<lparr>raw_code = CodeInt 600003, raw_name = None, raw_year = 1999, raw_index = Some 60\<rparr>]"]
  by (simp add: preprocess_def preprocess_row_def str_int_def)

lemma find_preprocess:
  "find (\<lambda>r. stock_code r = k) (preprocess t)
     = map_option preprocess_row (find (\<lambda>r. astype_str (raw_code r) = k) t)"
  by (induction t) (simp_all add: preprocess_def preprocess_row_def)

text \<open>
  Claim C4, as the code has it. The registry maps a code to the name cell of the FIRST
  row of that code in table order, after the blank names were replaced: the name of
  that row if it has one, the sentinel if its name is blank. A code whose first row
  has a blank name is therefore mapped to the sentinel, also when a later row of the
  code has a name.
\<close>

theorem C4_registry_first_row:
  "stock_name_map (preprocess t) k
     = map_option (\<lambda>r. fillna (raw_name r)) (find (\<lambda>r. astype_str (raw_code r) = k) t)"
  by (simp add: stock_name_map_def find_preprocess option.map_comp comp_def preprocess_row_def)

text \<open>An instance: the first row of the code has a name.\<close>

theorem C4_registry_first_row_witness:
  "stock_name_map
     (preprocess
        [\<lparr>raw_code = CodeStr ''000001'', raw_name = Some ''Acme'', raw_year = 1998, raw_index = Some 50\<rparr>,
         \<lparr>raw_code = CodeStr ''000001'', raw_name = None, raw_year = 1999, raw_index = Some 60\<rparr>])
     ''000001'' = Some ''Acme''"
  using C4_registry_first_row
    [of "[\<lparr>raw_code = CodeStr ''000001'', raw_name = Some ''Acme'', raw_year = 1998, raw_index = Some 50\<rparr>,
          \<lparr>raw_code = CodeStr ''000001'', raw_name = None, raw_year = 1999, raw_index = Some 60\<rparr>]"
        "''000001''"]
  by simp

text \<open>
  The first row of code 600003 has a blank name and the second row has the name
  \<open>Acme\<close>: the registry holds the sentinel, not \<open>Acme\<close>.
\<close>

theorem C4_counterexample:
  "stock_name_map
     (preprocess
        [\<lparr>raw_code = CodeInt 600003, raw_name = None, raw_year = 1998, raw_index = Some 50\<rparr>,
         \<lparr>raw_code = CodeInt 600003, raw_name = Some ''Acme'', raw_year = 1999, raw_index = Some 60\<rparr>])
     ''600003'' = Some unknown_company
   \<and> unknown_company \<noteq> ''Acme''"
  by (simp add: stock_name_map_def preprocess_def preprocess_row_def str_int_def unknown_company_def)

section \<open>The query selector\<close>

lemma filter_unique:
  "\<lbrakk>distinct (map f xs); r \<in> set xs\<rbrakk> \<Longrightarrow> filter (\<lambda>x. f x = f r) xs = [r]"
proof (induction xs)
  case Nil
  then show ?case by simp
next
  case (Cons a xs)
  show ?case
  proof (cases "a = r")
    case True
    with Cons.prems have "f r \<notin> f ` set xs" by simp
    then have "\<forall>x\<in>set xs. f x \<noteq> f r" by (metis imageI)
    then have "filter (\<lambda>x. f x = f r) xs = []" by (simp add: filter_empty_conv)
    with True show ?thesis by simp
  next
    case False
    with Cons.prems have "r \<in> set xs" "f a \<noteq> f r" by auto
    with Cons show ?thesis by simp
  qed
qed

text \<open>
  Claim C7. If no two rows of the table have the same (code, year), then for every row
  \<open>r\<close> of the table the exact-match subset for the code and year of \<open>r\<close> is the one
  row \<open>r\<close>: it has exactly one row, with the index value of \<open>r\<close>.
\<close>

theorem C7_exact_match_unique:
  assumes "distinct (map (\<lambda>r. (stock_code r, year r)) df)" and "r \<in> set df"
  shows "filtered_data df (stock_code r) (year r) = [r]
         \<and> length (filtered_data df (stock_code r) (year r)) = 1
         \<and> map dt_index (filtered_data df (stock_code r) (year r)) = [dt_index r]"
proof -
  have "filter (\<lambda>x. (stock_code x, year x) = (stock_code r, year r)) df = [r]"
    using assms by (rule filter_unique)
  then have "filtered_data df (stock_code r) (year r) = [r]"
    by (simp add: filtered_data_def)
  then show ?thesis by simp
qed

text \<open>The table of two rows of the specification's example, queried for 1999.\<close>

theorem C7_exact_match_unique_witness:
  "map dt_index
     (filtered_data
        [\<lparr>stock_code = ''600003'', company_name = ''Acme'', year = 1998, dt_index = Some 50\<rparr>,
         \<lparr>stock_code = ''600003'', company_name = ''Acme'', year = 1999, dt_index = Some 60\<rparr>]
        ''600003'' 1999) = [Some 60]"
  using C7_exact_match_unique
    [of "[\<lparr>stock_code = ''600003'', company_name = ''Acme'', year = 1998, dt_index = Some 50\<rparr>,
          \<lparr>stock_code = ''600003'', company_name = ''Acme'', year = 1999, dt_index = Some 60\<rparr>]"
        "\<lparr>stock_code = ''600003'', company_name = ''Acme'', year = 1999, dt_index = Some 60\<rparr>"]
  by simp

text \<open>
  Claim C8. For a code that no row of the table has, the all-years subset and the
  exact-match subset are empty, the displayed name is the sentinel, and the block of
  metrics of the current selection is skipped (it yields nothing and raises nothing).
\<close>

theorem C8_unknown_identifier:
  assumes "s \<notin> stock_code ` set df"
  shows "company_all_data df s = [] \<and> filtered_data df s y = []
         \<and> display_name df s = unknown_company \<and> current_metrics df s y = None"
proof -
  have none: "\<forall>r\<in>set df. stock_code r \<noteq> s" using assms by auto
  then have a: "filter (\<lambda>r. stock_code r = s) df = []" by (simp add: filter_empty_conv)
  from none have b: "filtered_data df s y = []" by (simp add: filtered_data_def filter_empty_conv)
  from none have "find (\<lambda>r. stock_code r = s) df = None" by (simp add: find_None_iff)
  then have c: "display_name df s = unknown_company"
    by (simp add: display_name_def stock_name_map_def)
  from a b c show ?thesis by (simp add: company_all_data_def current_metrics_def)
qed

text \<open>The code 999999 in a table that only has 600003.\<close>

theorem C8_unknown_identifier_witness:
  "display_name
     [\<lparr>stock_code = ''600003'', company_name = ''Acme'', year = 1999, dt_index = Some 60\<rparr>]
     ''999999'' = unknown_company
   \<and> current_metrics
     [\<lparr>stock_code = ''600003'', company_name = ''Acme'', year = 1999, dt_index = Some 60\<rparr>]
     ''999999'' 1999 = None"
  using C8_unknown_identifier
    [of "''999999''"
        "[\<lparr>stock_code = ''600003'', company_name = ''Acme'', year = 1999, dt_index = Some 60\<rparr>]"
        1999]
  by simp

section \<open>The rank of the current selection\<close>

text \<open>
  Claim C1, as the code has it. When the exact-match subset is not empty, the rank
  shown is the number of rows of the whole table that have the selected year and an
  index value greater than or equal to that of the selected row (the first exact
  match), the total shown is the number of rows of that year, and rank \<open>\<le>\<close> total. The
  rank is at least 1 when the index cell of the selected row holds a number. (When
  that cell is blank, every comparison with it is false and the rank is 0.)
\<close>

theorem C1_rank:
  assumes "filtered_data df s y = r0 # rest"
  shows "\<exists>m. current_metrics df s y = Some m
           \<and> m_rank m = length (filter (\<lambda>r. year r = y
                 \<and> fl_ge (of_cell (dt_index r)) (of_cell (dt_index r0))) df)
           \<and> m_total m = length (filter (\<lambda>r. year r = y) df)
           \<and> m_rank m \<le> m_total m
           \<and> (dt_index r0 \<noteq> None \<longrightarrow> 1 \<le> m_rank m)"
proof -
  let ?v = "of_cell (dt_index r0)"
  let ?rank = "current_rank df y ?v"
  have rank_eq: "?rank = length (filter (\<lambda>r. year r = y \<and> fl_ge (of_cell (dt_index r)) ?v) df)"
    by (simp add: current_rank_def current_year_data_def conj_commute)
  have le: "?rank \<le> length (current_year_data df y)"
    by (simp add: current_rank_def)
  have "r0 \<in> set (filtered_data df s y)" using assms by simp
  then have r0: "r0 \<in> set df" "year r0 = y" by (auto simp: filtered_data_def)
  have pos: "1 \<le> ?rank" if "dt_index r0 \<noteq> None"
  proof -
    from that obtain x where x: "dt_index r0 = Some x" by auto
    have "r0 \<in> set (filter (\<lambda>r. fl_ge (of_cell (dt_index r)) ?v) (current_year_data df y))"
      using r0 x by (simp add: current_year_data_def fl_ge_def)
    then have "filter (\<lambda>r. fl_ge (of_cell (dt_index r)) ?v) (current_year_data df y) \<noteq> []"
      by (metis empty_iff empty_set)
    then show ?thesis by (simp add: current_rank_def Suc_le_eq)
  qed
  show ?thesis
    using assms rank_eq le pos by (simp add: current_metrics_def current_year_data_def)
qed

text \<open>Four rows in 1999, two of them tied at the top, one with a blank index cell:
  the selected code has rank 2 of 4.\<close>

theorem C1_rank_witness:
  "map_option (\<lambda>m. (m_rank m, m_total m))
     (current_metrics
        [\<lparr>stock_code = ''600003'', company_name = ''Acme'', year = 1999, dt_index = Some 60\<rparr>,
         \<lparr>stock_code = ''600004'', company_name = ''Bolt'', year = 1999, dt_index = Some 60\<rparr>,
         \<lparr>stock_code = ''600005'', company_name = ''Core'', year = 1999, dt_index = Some 40\<rparr>,
         \<lparr>stock_code = ''600006'', company_name = ''Dune'', year = 1999, dt_index = None\<rparr>,
         \<lparr>stock_code = ''600003'', company_name = ''Acme'', year = 1998, dt_index = Some 90\<rparr>]
        ''600003'' 1999) = Some (2, 4)"
  using C1_rank
    [of "[\<lparr>stock_code = ''600003'', company_name = ''Acme'', year = 1999, dt_index = Some 60\<rparr>,
         \<lparr>stock_code = ''600004'', company_name = ''Bolt'', year = 1999, dt_index = Some 60\<rparr>,
         \<lparr>stock_code = ''600005'', company_name = ''Core'', year = 1999, dt_index = Some 40\<rparr>,
         \<lparr>stock_code = ''600006'', company_name = ''Dune'', year = 1999, dt_index = None\<rparr>,
         \<lparr>stock_code = ''600003'', company_name = ''Acme'', year = 1998, dt_index = Some 90\<rparr>]"
        "''600003''" 1999
        "\<lparr>stock_code = ''600003'', company_name = ''Acme'', year = 1999, dt_index = Some 60\<rparr>" "[]"]
  by (auto simp: filtered_data_def fl_ge_def)

text \<open>
  The index cell of the row selected is blank: the exact-match subset is not empty,
  and the rank shown is 0 of 1.
\<close>

theorem C1_counterexample:
  "filtered_data
     [\<lparr>stock_code = ''600003'', company_name = ''Acme'', year = 1998, dt_index = Some 50\<rparr>,
      \<lparr>stock_code = ''600003'', company_name = ''Acme'', year = 1999, dt_index = None\<rparr>]
     ''600003'' 1999 \<noteq> []
   \<and> map_option (\<lambda>m. (m_rank m, m_total m))
       (current_metrics
          [\<lparr>stock_code = ''600003'', company_name = ''Acme'', year = 1998, dt_index = Some 50\<rparr>,
           \<lparr>stock_code = ''600003'', company_name = ''Acme'', year = 1999, dt_index = None\<rparr>]
          ''600003'' 1999) = Some (0, 1)"
  by (simp add: filtered_data_def current_metrics_def current_rank_def current_year_data_def
      fl_ge_def)

section \<open>The bucketed distribution\<close>

lemma cut_Num:
  "cut (Num x) =
     (if 0 < x \<and> x \<le> 20 then Some 0
      else if 20 < x \<and> x \<le> 40 then Some 1
      else if 40 < x \<and> x \<le> 60 then Some 2
      else if 60 < x \<and> x \<le> 80 then Some 3
      else if 80 < x \<and> x \<le> 100 then Some 4
      else None)"
  by (simp add: cut_def searchsorted_left_def bins_def)

lemma cut_not_Num: "cut NaN = None" "cut (Infty s) = None"
  by (cases s; simp add: cut_def searchsorted_left_def bins_def)+

lemma cut_in_range:
  "(\<exists>i<5. cut (of_cell c) = Some i) \<longleftrightarrow> (\<exists>x. c = Some x \<and> 0 < x \<and> x \<le> 100)"
proof (cases c)
  case None
  then show ?thesis by (simp add: cut_not_Num)
next
  case (Some x)
  then show ?thesis by (auto simp: cut_Num split: if_splits)
qed

lemma cut_bucket:
  assumes "i < 5"
  shows "(cut (of_cell c) = Some i)
           = (\<exists>x. c = Some x \<and> bins ! i < x \<and> x \<le> bins ! Suc i)"
proof -
  from assms have i: "i = 0 \<or> i = 1 \<or> i = 2 \<or> i = 3 \<or> i = 4" by arith
  show ?thesis
  proof (cases c)
    case None
    then show ?thesis by (simp add: cut_not_Num)
  next
    case (Some x)
    with i show ?thesis by (auto simp: cut_Num bins_def)
  qed
qed

lemma length_filter_disj:
  "\<forall>x\<in>set xs. \<not> (P x \<and> Q x)
     \<Longrightarrow> length (filter (\<lambda>x. P x \<or> Q x) xs) = length (filter P xs) + length (filter Q xs)"
  by (induction xs) auto

lemma sum_counts:
  "sum_list (map (\<lambda>i. length (filter (\<lambda>r. f r = Some i) xs)) [0 ..< n])
     = length (filter (\<lambda>r. \<exists>i<n. f r = Some i) xs)"
proof (induction n)
  case 0
  then show ?case by simp
next
  case (Suc n)
  have "(\<lambda>r. \<exists>i<Suc n. f r = Some i) = (\<lambda>r. (\<exists>i<n. f r = Some i) \<or> f r = Some n)"
    by (auto simp: less_Suc_eq)
  moreover have "\<forall>r\<in>set xs. \<not> ((\<exists>i<n. f r = Some i) \<and> f r = Some n)" by auto
  ultimately have "length (filter (\<lambda>r. \<exists>i<Suc n. f r = Some i) xs)
      = length (filter (\<lambda>r. \<exists>i<n. f r = Some i) xs) + length (filter (\<lambda>r. f r = Some n) xs)"
    using length_filter_disj [of xs "\<lambda>r. \<exists>i<n. f r = Some i" "\<lambda>r. f r = Some n"] by simp
  with Suc show ?case by simp
qed

text \<open>
  Claim C2, as the code has it. The five buckets are the intervals \<open>(0,20]\<close>,
  \<open>(20,40]\<close>, \<open>(40,60]\<close>, \<open>(60,80]\<close>, \<open>(80,100]\<close>, each open on the left and closed on
  the right: every index value in \<open>(0,100]\<close> falls into exactly one bucket, the one
  whose interval holds it; only such values get a bucket; the distribution lists the
  five labels in order, each with the number of rows whose index value lies in the
  interval of that bucket; and the five counts add up to the number of rows whose
  index value lies in \<open>(0,100]\<close>.
\<close>

theorem C2_distribution:
  "(0 < x \<and> x \<le> 100 \<longrightarrow> (\<exists>!i. cut (Num x) = Some i \<and> i < 5 \<and> bins ! i < x \<and> x \<le> bins ! Suc i))
   \<and> (cut v = Some i \<longrightarrow> (\<exists>x. v = Num x \<and> i < 5 \<and> bins ! i < x \<and> x \<le> bins ! Suc i))
   \<and> map fst (distribution df) = labels
   \<and> (j < 5 \<longrightarrow>
        distribution df ! j
          = (labels ! j,
             length (filter (\<lambda>r. \<exists>x. dt_index r = Some x \<and> bins ! j < x \<and> x \<le> bins ! Suc j) df)))
   \<and> sum_list (map snd (distribution df))
       = length (filter (\<lambda>r. \<exists>x. dt_index r = Some x \<and> 0 < x \<and> x \<le> 100) df)"
proof (intro conjI impI)
  assume "0 < x \<and> x \<le> 100"
  then show "\<exists>!i. cut (Num x) = Some i \<and> i < 5 \<and> bins ! i < x \<and> x \<le> bins ! Suc i"
    by (auto simp: cut_Num bins_def)
next
  assume "cut v = Some i"
  then show "\<exists>x. v = Num x \<and> i < 5 \<and> bins ! i < x \<and> x \<le> bins ! Suc i"
    by (cases v) (auto simp: cut_Num cut_not_Num bins_def split: if_splits)
next
  show "map fst (distribution df) = labels"
    by (simp add: distribution_def comp_def map_nth)
next
  assume j: "j < 5"
  have "length labels = 5" by (simp add: labels_def)
  with j have "j < length labels" by simp
  then have "distribution df ! j
      = (labels ! j, length (filter (\<lambda>r. cut (of_cell (dt_index r)) = Some j) df))"
    by (simp add: distribution_def)
  then show "distribution df ! j
      = (labels ! j,
         length (filter (\<lambda>r. \<exists>x. dt_index r = Some x \<and> bins ! j < x \<and> x \<le> bins ! Suc j) df))"
    using j by (simp only: cut_bucket)
next
  have len: "length labels = 5" by (simp add: labels_def)
  have "map snd (distribution df)
      = map (\<lambda>i. length (filter (\<lambda>r. cut (of_cell (dt_index r)) = Some i) df))
          [0 ..< length labels]"
    unfolding distribution_def by (simp add: comp_def)
  then have "sum_list (map snd (distribution df))
      = length (filter (\<lambda>r. \<exists>i<length labels. cut (of_cell (dt_index r)) = Some i) df)"
    by (simp only: sum_counts)
  then show "sum_list (map snd (distribution df))
      = length (filter (\<lambda>r. \<exists>x. dt_index r = Some x \<and> 0 < x \<and> x \<le> 100) df)"
    by (simp only: len cut_in_range)
qed

text \<open>
  The value 0 gets no bucket, and the value 20 is counted in the first bucket
  (\<open>0-20\<close>), not in the second: of a table with these two rows, one row is counted.
\<close>

theorem C2_counterexample:
  "cut (Num 0) = None \<and> cut (Num 20) = Some 0
   \<and> distribution
       [\<lparr>stock_code = ''600003'', company_name = ''Acme'', year = 1998, dt_index = Some 0\<rparr>,
        \<lparr>stock_code = ''600004'', company_name = ''Bolt'', year = 1999, dt_index = Some 20\<rparr>]
     = [(''0-20'', 1), (''20-40'', 0), (''40-60'', 0), (''60-80'', 0), (''80-100'', 0)]"
  by (simp add: cut_Num distribution_def labels_def upt_rec [of 0] upt_rec [of 1] upt_rec [of 2] upt_rec [of 3] upt_rec [of 4])

text \<open>An instance: the value 20, and a table with the index values 0, 20, 100 and a
  blank cell, of which two are counted, one of them in the last bucket.\<close>

theorem C2_distribution_witness:
  "(\<exists>!i. cut (Num 20) = Some i \<and> i < 5 \<and> bins ! i < 20 \<and> 20 \<le> bins ! Suc i)
   \<and> sum_list (map snd (distribution
       [\<lparr>stock_code = ''600003'', company_name = ''Acme'', year = 1999, dt_index = Some 0\<rparr>,
        \<lparr>stock_code = ''600004'', company_name = ''Bolt'', year = 1999, dt_index = Some 20\<rparr>,
        \<lparr>stock_code = ''600005'', company_name = ''Core'', year = 1999, dt_index = Some 100\<rparr>,
        \<lparr>stock_code = ''600006'', company_name = ''Dune'', year = 1999, dt_index = None\<rparr>])) = 2
   \<and> distribution
       [\<lparr>stock_code = ''600003'', company_name = ''Acme'', year = 1999, dt_index = Some 0\<rparr>,
        \<lparr>stock_code = ''600004'', company_name = ''Bolt'', year = 1999, dt_index = Some 20\<rparr>,
        \<lparr>stock_code = ''600005'', company_name = ''Core'', year = 1999, dt_index = Some 100\<rparr>,
        \<lparr>stock_code = ''600006'', company_name = ''Dune'', year = 1999, dt_index = None\<rparr>] ! 4
     = (''80-100'', 1)"
  using C2_distribution [where x = 20 and v = "Num 20" and i = 0 and j = 4 and df =
      "[\<lparr>stock_code = ''600003'', company_name = ''Acme'', year = 1999, dt_index = Some 0\<rparr>,
        \<lparr>stock_code = ''600004'', company_name = ''Bolt'', year = 1999, dt_index = Some 20\<rparr>,
        \<lparr>stock_code = ''600005'', company_name = ''Core'', year = 1999, dt_index = Some 100\<rparr>,
        \<lparr>stock_code = ''600006'', company_name = ''Dune'', year = 1999, dt_index = None\<rparr>]"]
  by (simp add: bins_def labels_def)

section \<open>Grouped means and the year-over-year change\<close>




lemma ffill_from_id: "\<forall>x\<in>set xs. \<not> isna x \<Longrightarrow> ffill_from prev xs = xs"
  by (induction xs arbitrary: prev) simp_all

lemma group_mean_number:
  "Some x \<in> set vs \<Longrightarrow> \<not> isna (group_mean vs)"
proof -
  assume "Some x \<in> set vs"
  then have "x \<in> set (List.map_filter id vs)"
    by (auto simp: List.map_filter_def intro!: image_eqI [where x = "Some x"])
  then have "List.map_filter id vs \<noteq> []" by auto
  then show ?thesis by (simp add: group_mean_def Let_def)
qed

lemma pad_same:
  assumes "\<forall>y\<in>year ` set df. \<exists>r\<in>set df. year r = y \<and> dt_index r \<noteq> None"
  shows "ffill (map snd (yearly_mean df)) = map snd (yearly_mean df)"
proof -
  have "\<not> isna m" if "m \<in> set (map snd (yearly_mean df))" for m
  proof -
    from that obtain y where y: "y \<in> year ` set df"
      and m: "m = group_mean (map dt_index (filter (\<lambda>r. year r = y) df))"
      by (auto simp: yearly_mean_def groupby_mean_def)
    from assms y obtain r x where "r \<in> set df" "year r = y" "dt_index r = Some x" by force
    then have "Some x \<in> set (map dt_index (filter (\<lambda>r. year r = y) df))" by force
    with m show ?thesis by (simp add: group_mean_number)
  qed
  then show ?thesis by (simp add: ffill_def ffill_from_id)
qed




section \<open>The top-N lists\<close>




lemma set_insort_desc: "set (insort_desc x ys) = insert x (set ys)"
  by (induction ys) auto


lemma set_sort_desc: "set (sort_desc xs) = set xs"
  by (induction xs) (simp_all add: set_insort_desc)






lemma nlargest_ranking: "nlargest n s = take n (ranking s)"
  by (simp add: nlargest_def ranking_def)


lemma set_ranking: "set (ranking s) = set s"
  by (auto simp: ranking_def set_sort_desc)




lemma mean_by_code_entry:
  "e \<in> set (mean_by_code df) \<Longrightarrow>
     fst e \<in> stock_code ` set df
     \<and> snd e = group_mean (map dt_index (filter (\<lambda>r. stock_code r = fst e) df))"
  by (auto simp: mean_by_code_def groupby_mean_def)




section \<open>The heatmap\<close>

lemma top_stocks_codes: "set (top_stocks df) \<subseteq> stock_code ` set df"
proof -
  have "set (nlargest 30 (mean_by_code df)) \<subseteq> set (mean_by_code df)"
    using set_ranking [of "mean_by_code df"] by (auto simp: nlargest_ranking dest: in_set_takeD)
  then show ?thesis
    using mean_by_code_entry [of _ df] by (auto simp: top_stocks_def)
qed

lemma pivot_index_member:
  assumes "r \<in> set df" and "dt_index r = Some x"
  shows "stock_code r \<in> set (p_index (pivot_table df))"
proof -
  have "Some x \<in> set (map dt_index (filter (\<lambda>q. stock_code q = stock_code r \<and> year q = year r) df))"
    using assms by force
  then have "\<not> isna (cell_mean df (stock_code r) (year r))"
    by (simp add: cell_mean_def group_mean_number)
  then have "(stock_code r, year r) \<in> set (kept_groups df)"
    using assms(1) by (force simp: kept_groups_def)
  then show ?thesis by (force simp: pivot_table_def)
qed

lemma heatmap_defined:
  assumes "\<forall>k\<in>stock_code ` set df. \<exists>r\<in>set df. stock_code r = k \<and> dt_index r \<noteq> None"
  shows "\<exists>p. heatmap df = Inr p"
proof -
  have "k \<in> set (p_index (pivot_table df))" if "k \<in> set (top_stocks df)" for k
  proof -
    from that top_stocks_codes have "k \<in> stock_code ` set df" by blast
    with assms obtain r x where "r \<in> set df" "stock_code r = k" "dt_index r = Some x" by force
    then show ?thesis using pivot_index_member by blast
  qed
  then have "filter (\<lambda>k. k \<notin> set (p_index (pivot_table df))) (top_stocks df) = []"
    by (simp add: filter_empty_conv)
  then show ?thesis by (simp add: heatmap_def loc_def Let_def)
qed

text \<open>
  Claim C10. The claim fails on the code: code 600004 has one row, with a blank index
  cell. The pivot table drops its only group, so its rows are \<open>[600003]\<close>; the mean of
  600004 is NaN and \<open>nlargest 30\<close> still lists it, after 600003; selecting the rows
  raises \<^verbatim>\<open>KeyError\<close>. (When every code has a row with an index value the selection
  is defined: lemma \<open>heatmap_defined\<close>.)
\<close>

theorem C10_failing_input:
  "p_index (pivot_table
     [\<lparr>stock_code = ''600003'', company_name = ''Acme'', year = 1998, dt_index = Some 50\<rparr>,
      \<lparr>stock_code = ''600003'', company_name = ''Acme'', year = 1999, dt_index = Some 60\<rparr>,
      \<lparr>stock_code = ''600004'', company_name = ''Bolt'', year = 1999, dt_index = None\<rparr>])
     = [''600003'']
   \<and> top_stocks
     [\<lparr>stock_code = ''600003'', company_name = ''Acme'', year = 1998, dt_index = Some 50\<rparr>,
      \<lparr>stock_code = ''600003'', company_name = ''Acme'', year = 1999, dt_index = Some 60\<rparr>,
      \<lparr>stock_code = ''600004'', company_name = ''Bolt'', year = 1999, dt_index = None\<rparr>]
     = [''600003'', ''600004'']
   \<and> heatmap
     [\<lparr>stock_code = ''600003'', company_name = ''Acme'', year = 1998, dt_index = Some 50\<rparr>,
      \<lparr>stock_code = ''600003'', company_name = ''Acme'', year = 1999, dt_index = Some 60\<rparr>,
      \<lparr>stock_code = ''600004'', company_name = ''Bolt'', year = 1999, dt_index = None\<rparr>]
     = Inl (KeyError [''600004''])"
proof -
  let ?df = "[\<lparr>stock_code = ''600003'', company_name = ''Acme'', year = 1998, dt_index = Some 50\<rparr>,
      \<lparr>stock_code = ''600003'', company_name = ''Acme'', year = 1999, dt_index = Some 60\<rparr>,
      \<lparr>stock_code = ''600004'', company_name = ''Bolt'', year = 1999, dt_index = None\<rparr>]"
  have a: "p_index (pivot_table ?df) = [''600003'']" by code_simp
  have b: "p_columns (pivot_table ?df) = [1998, 1999]" by code_simp
  have c: "top_stocks ?df = [''600003'', ''600004'']" by code_simp
  have "heatmap ?df = Inl (KeyError [''600004''])"
    by (simp add: heatmap_def Let_def empty_pivot_def loc_def a b c)
  with a c show ?thesis by simp
qed

end
